theory Spec2Isabelle
  imports Complex_Main
begin

section \<open>The conversation bot of \<^verbatim>\<open>src/bot.py\<close>\<close>

text \<open>
  The module keeps one global dictionary \<^verbatim>\<open>user_conversations\<close> from chat ids to
  Python lists of message dictionaries. Python lists are mutable objects reached through
  references, and \<^verbatim>\<open>handle_message\<close> appends in place to the very list the dictionary
  holds before it rebinds its local variable to a slice. The embedding therefore keeps an
  explicit store of list objects: a variable or a dictionary entry holds the address of a
  list, \<^verbatim>\<open>append\<close> updates the object at that address, and a list display or a slice
  allocates a new object.

  Logging is not modelled. The two calls that leave the process
  (\<^verbatim>\<open>openai.ChatCompletion.create\<close> and \<^verbatim>\<open>update.message.reply_text\<close>) are recorded as
  effects, in the order in which the handler makes them. The answer of the completion
  service is a parameter of the handler: a function from the request to an exception or a
  response. \<^verbatim>\<open>reply_text\<close> is taken to return; delivery belongs to the transport.
\<close>

subsection \<open>Python values\<close>

text \<open>
  The values that travel through the handler: strings, and the nested dictionaries and
  lists of the completion service's response. A dictionary with string keys is an
  association list read with \<^const>\<open>map_of\<close>.
\<close>

datatype pyval =
    PyNone
  | PyStr string
  | PyList "pyval list"
  | PyDict "(string \<times> pyval) list"

text \<open>
  The exceptions (subclasses of \<^verbatim>\<open>Exception\<close>) that the \<^verbatim>\<open>try\<close> block can meet:
  whatever the client library raises (connection error, timeout, API error, ...) and
  the three that subscripting the response can raise.
\<close>

datatype exception = OpenAIError string | KeyError | IndexError | TypeError

text \<open>\<^verbatim>\<open>obj[key]\<close> for a string key.\<close>

fun getitem_key :: "pyval \<Rightarrow> string \<Rightarrow> exception + pyval" where
  "getitem_key (PyDict kvs) k = (case map_of kvs k of None \<Rightarrow> Inl KeyError | Some v \<Rightarrow> Inr v)"
| "getitem_key PyNone k = Inl TypeError"
| "getitem_key (PyStr s) k = Inl TypeError"
| "getitem_key (PyList xs) k = Inl TypeError"

text \<open>\<^verbatim>\<open>obj[0]\<close>. A dictionary of the response has string keys only, so \<^verbatim>\<open>0\<close> is no key.\<close>

fun getitem_0 :: "pyval \<Rightarrow> exception + pyval" where
  "getitem_0 (PyList []) = Inl IndexError"
| "getitem_0 (PyList (x # xs)) = Inr x"
| "getitem_0 (PyStr []) = Inl IndexError"
| "getitem_0 (PyStr (c # cs)) = Inr (PyStr [c])"
| "getitem_0 (PyDict kvs) = Inl KeyError"
| "getitem_0 PyNone = Inl TypeError"

text \<open>\<^verbatim>\<open>xs[i:]\<close>: a negative start counts from the end, and the start is clamped to the list.\<close>

definition slice_from :: "int \<Rightarrow> 'a list \<Rightarrow> 'a list" where
  "slice_from i xs =
     (let n = int (length xs);
          start = (if i < 0 then max (n + i) 0 else min i n)
      in drop (nat start) xs)"

subsection \<open>Messages, requests and the module's state\<close>

text \<open>A message dictionary \<^verbatim>\<open>{"role": ..., "content": ...}\<close>.\<close>

record message =
  role :: string
  content :: pyval

text \<open>
  The keyword arguments of \<^verbatim>\<open>openai.ChatCompletion.create\<close>. The temperature is the
  decimal literal of the source.
\<close>

record request =
  model :: string
  messages :: "message list"
  temperature :: rat

text \<open>
  The store of list objects, the next unused address, and the global dictionary
  \<^verbatim>\<open>user_conversations\<close> from chat ids to addresses of lists.
\<close>

record bot_state =
  heap :: "nat \<Rightarrow> message list"
  next_addr :: nat
  user_conversations :: "int \<rightharpoonup> nat"

definition MAX_CONTEXT_MESSAGES :: int where
  "MAX_CONTEXT_MESSAGES = 10"

text \<open>The state when the module has been loaded: \<^verbatim>\<open>user_conversations = {}\<close>.\<close>

definition initial_state :: bot_state where
  "initial_state = \<lparr>heap = (\<lambda>a. []), next_addr = 0, user_conversations = Map.empty\<rparr>"

text \<open>A list display or a slice creates a new list object.\<close>

definition new_list :: "message list \<Rightarrow> bot_state \<Rightarrow> nat \<times> bot_state" where
  "new_list xs s =
     (next_addr s, s\<lparr>heap := (heap s)(next_addr s := xs), next_addr := Suc (next_addr s)\<rparr>)"

text \<open>\<^verbatim>\<open>lst.append(m)\<close> changes the object in place.\<close>

definition list_append :: "nat \<Rightarrow> message \<Rightarrow> bot_state \<Rightarrow> bot_state" where
  "list_append a m s = s\<lparr>heap := (heap s)(a := heap s a @ [m])\<rparr>"

text \<open>\<^verbatim>\<open>user_conversations[chat_id] = lst\<close>.\<close>

definition dict_setitem :: "int \<Rightarrow> nat \<Rightarrow> bot_state \<Rightarrow> bot_state" where
  "dict_setitem chat_id a s = s\<lparr>user_conversations := (user_conversations s)(chat_id \<mapsto> a)\<rparr>"

text \<open>What reading \<^verbatim>\<open>user_conversations[chat_id]\<close> gives, if the key is there.\<close>

definition stored_history :: "bot_state \<Rightarrow> int \<Rightarrow> message list option" where
  "stored_history s chat_id =
     (case user_conversations s chat_id of None \<Rightarrow> None | Some a \<Rightarrow> Some (heap s a))"

subsection \<open>Effects and results of a handler\<close>

datatype effect =
    ChatCompletionCreate request
  | ReplyText int pyval

text \<open>
  What one handler run leaves behind: the exception that left the handler (if any),
  the outward calls in order, and the state.
\<close>

record handled =
  raised :: "exception option"
  effects :: "effect list"
  final :: bot_state

subsection \<open>The fixed texts\<close>

definition welcome_text :: string where
  "welcome_text =
     ''Hello! I'm your AI Therapist Bot. I am here to listen and offer supportive responses.''
     @ [CHR 0x0A, CHR 0x0A] @
     ''You can talk to me about anything on your mind, and I'll do my best to help. '' @
     ''If you need more detailed instructions, type /help.''"

definition help_text :: string where
  "help_text =
     ''Here are some commands you can use:'' @ [CHR 0x0A, CHR 0x0A] @
     ''/start - Welcome message.'' @ [CHR 0x0A] @
     ''/help - This help message.'' @ [CHR 0x0A] @
     ''/new - Reset your conversation context.'' @ [CHR 0x0A, CHR 0x0A] @
     ''Otherwise, just type your message, and I'll reply!''"

definition reset_text :: string where
  "reset_text = ''Conversation context has been reset. Feel free to start anew!''"

definition apology_text :: string where
  "apology_text =
     ''I'm sorry, but I'm having trouble connecting to my brain right now. '' @
     ''Please try again later.''"

definition system_prompt :: string where
  "system_prompt =
     ''You are a supportive, empathetic AI therapist. You listen attentively and provide helpful, '' @
     ''gentle, and understanding responses. You are not a medical professional, but you offer '' @
     ''a comforting presence and coping strategies.''"

subsection \<open>The command handlers\<close>

text \<open>
  \<^verbatim>\<open>if chat_id not in user_conversations: user_conversations[chat_id] = []\<close>
  (in \<^verbatim>\<open>start_command\<close> and at the head of \<^verbatim>\<open>handle_message\<close>).
\<close>

definition init_conversation :: "int \<Rightarrow> bot_state \<Rightarrow> bot_state" where
  "init_conversation chat_id s =
     (if user_conversations s chat_id = None
      then (let (a, s') = new_list [] s in dict_setitem chat_id a s')
      else s)"

definition start_command :: "int \<Rightarrow> bot_state \<Rightarrow> handled" where
  "start_command chat_id s =
     \<lparr>raised = None,
      effects = [ReplyText chat_id (PyStr welcome_text)],
      final = init_conversation chat_id s\<rparr>"

definition help_command :: "int \<Rightarrow> bot_state \<Rightarrow> handled" where
  "help_command chat_id s =
     \<lparr>raised = None, effects = [ReplyText chat_id (PyStr help_text)], final = s\<rparr>"

definition new_command :: "int \<Rightarrow> bot_state \<Rightarrow> handled" where
  "new_command chat_id s =
     (let (a, s') = new_list [] s
      in \<lparr>raised = None,
          effects = [ReplyText chat_id (PyStr reset_text)],
          final = dict_setitem chat_id a s'\<rparr>)"

subsection \<open>The text-message handler\<close>

text \<open>
  Lines 116 to 120: append the user's message to the list \<open>conversation_history\<close>
  points to, and rebind the variable to a slice (a new list) when the list has grown
  beyond the bound. The result is the new value of the variable and the state.
\<close>

definition append_user_turn :: "nat \<Rightarrow> string \<Rightarrow> bot_state \<Rightarrow> nat \<times> bot_state" where
  "append_user_turn conversation_history user_text s =
     (let s1 = list_append conversation_history \<lparr>role = ''user'', content = PyStr user_text\<rparr> s
      in if int (length (heap s1 conversation_history)) > MAX_CONTEXT_MESSAGES
         then new_list (slice_from (- MAX_CONTEXT_MESSAGES) (heap s1 conversation_history)) s1
         else (conversation_history, s1))"

text \<open>Lines 124 to 132: the system message, then the history.\<close>

definition messages_for_openai :: "message list \<Rightarrow> message list" where
  "messages_for_openai history = [\<lparr>role = ''system'', content = PyStr system_prompt\<rparr>] @ history"

definition completion_request :: "message list \<Rightarrow> request" where
  "completion_request history =
     \<lparr>model = ''gpt-3.5-turbo'', messages = messages_for_openai history, temperature = 0.7\<rparr>"

text \<open>
  The body of the \<^verbatim>\<open>try\<close> block, lines 136 to 141: the call, then
  \<^verbatim>\<open>response["choices"][0]["message"]["content"]\<close>. The first exception ends it.
\<close>

definition chat_completion :: "(request \<Rightarrow> exception + pyval) \<Rightarrow> request \<Rightarrow> exception + pyval" where
  "chat_completion create req =
     (case create req of
        Inl e \<Rightarrow> Inl e
      | Inr response \<Rightarrow>
         (case getitem_key response ''choices'' of
            Inl e \<Rightarrow> Inl e
          | Inr choices \<Rightarrow>
             (case getitem_0 choices of
                Inl e \<Rightarrow> Inl e
              | Inr choice \<Rightarrow>
                 (case getitem_key choice ''message'' of
                    Inl e \<Rightarrow> Inl e
                  | Inr msg \<Rightarrow> getitem_key msg ''content''))))"

text \<open>
  Lines 151 to 154: append the reply to the list \<open>conversation_history\<close> points to
  and store a slice of it (a new list) in the dictionary.
\<close>

definition commit_assistant_turn :: "int \<Rightarrow> nat \<Rightarrow> pyval \<Rightarrow> bot_state \<Rightarrow> bot_state" where
  "commit_assistant_turn chat_id conversation_history ai_reply s =
     (let s1 = list_append conversation_history \<lparr>role = ''assistant'', content = ai_reply\<rparr> s;
          (a, s2) = new_list (slice_from (- MAX_CONTEXT_MESSAGES) (heap s1 conversation_history)) s1
      in dict_setitem chat_id a s2)"

text \<open>
  \<^verbatim>\<open>handle_message\<close>. The lookup of line 113 raises \<^verbatim>\<open>KeyError\<close> outside the
  \<^verbatim>\<open>try\<close> block when the key is missing; the \<^verbatim>\<open>except\<close> clause answers every
  exception of the block with the apology and returns.
\<close>

definition handle_message ::
  "(request \<Rightarrow> exception + pyval) \<Rightarrow> int \<Rightarrow> string \<Rightarrow> bot_state \<Rightarrow> handled" where
  "handle_message create chat_id user_text s =
     (let s1 = init_conversation chat_id s
      in case user_conversations s1 chat_id of
           None \<Rightarrow> \<lparr>raised = Some KeyError, effects = [], final = s1\<rparr>
         | Some stored \<Rightarrow>
            (let (conversation_history, s2) = append_user_turn stored user_text s1;
                 req = completion_request (heap s2 conversation_history)
             in case chat_completion create req of
                  Inl e \<Rightarrow>
                    \<lparr>raised = None,
                     effects = [ChatCompletionCreate req, ReplyText chat_id (PyStr apology_text)],
                     final = s2\<rparr>
                | Inr ai_reply \<Rightarrow>
                    \<lparr>raised = None,
                     effects = [ChatCompletionCreate req, ReplyText chat_id ai_reply],
                     final = commit_assistant_turn chat_id conversation_history ai_reply s2\<rparr>))"

subsection \<open>Events and runs\<close>

text \<open>
  The four handlers that \<^verbatim>\<open>main\<close> registers. A run starts in the state of the freshly
  loaded module and handles the events one after the other; each event comes with the
  behaviour of the completion service at that moment.
\<close>

datatype event =
    StartCmd int
  | HelpCmd int
  | NewCmd int
  | TextMsg int string

fun chat_of :: "event \<Rightarrow> int" where
  "chat_of (StartCmd c) = c"
| "chat_of (HelpCmd c) = c"
| "chat_of (NewCmd c) = c"
| "chat_of (TextMsg c t) = c"

fun dispatch :: "(request \<Rightarrow> exception + pyval) \<Rightarrow> event \<Rightarrow> bot_state \<Rightarrow> handled" where
  "dispatch create (StartCmd c) s = start_command c s"
| "dispatch create (HelpCmd c) s = help_command c s"
| "dispatch create (NewCmd c) s = new_command c s"
| "dispatch create (TextMsg c t) s = handle_message create c t s"

fun run :: "((request \<Rightarrow> exception + pyval) \<times> event) list \<Rightarrow> bot_state \<Rightarrow> bot_state" where
  "run [] s = s"
| "run ((create, ev) # evs) s = run evs (final (dispatch create ev s))"

text \<open>Two behaviours of the service used in the examples: it fails, or it answers with a fixed text.\<close>

definition failing :: "request \<Rightarrow> exception + pyval" where
  "failing req = Inl (OpenAIError ''timeout'')"

definition answering :: "string \<Rightarrow> request \<Rightarrow> exception + pyval" where
  "answering txt req =
     Inr (PyDict [(''choices'',
            PyList [PyDict [(''message'',
              PyDict [(''role'', PyStr ''assistant''), (''content'', PyStr txt)])]])])"

subsection \<open>Auxiliary notions for the proofs\<close>

text \<open>
  The references of a state are in order when every list the dictionary points to has
  been allocated, and no two chat ids point to the same list object.
\<close>

definition well_formed :: "bot_state \<Rightarrow> bool" where
  "well_formed s \<longleftrightarrow>
     (\<forall>c a. user_conversations s c = Some a \<longrightarrow> a < next_addr s) \<and>
     (\<forall>c c' a. user_conversations s c = Some a \<longrightarrow> user_conversations s c' = Some a \<longrightarrow> c = c')"

text \<open>
  The list that line 113 of \<^verbatim>\<open>handle_message\<close> reads: the stored one, or the empty list
  that line 111 has just created.
\<close>

definition conversation_of :: "bot_state \<Rightarrow> int \<Rightarrow> message list" where
  "conversation_of s c = (case stored_history s c of None \<Rightarrow> [] | Some h \<Rightarrow> h)"

text \<open>Every message of every list object has the role of the user or of the assistant.\<close>

definition dialogue_roles_only :: "bot_state \<Rightarrow> bool" where
  "dialogue_roles_only s \<longleftrightarrow>
     (\<forall>a. \<forall>m \<in> set (heap s a). role m = ''user'' \<or> role m = ''assistant'')"

subsection \<open>Example runs\<close>

text \<open>
  Chat 7 sends five messages and the service answers each of them: ten stored turns.
\<close>

definition five_exchanges :: "((request \<Rightarrow> exception + pyval) \<times> event) list" where
  "five_exchanges =
     [(answering ''ok'', TextMsg 7 ''m1''), (answering ''ok'', TextMsg 7 ''m2''),
      (answering ''ok'', TextMsg 7 ''m3''), (answering ''ok'', TextMsg 7 ''m4''),
      (answering ''ok'', TextMsg 7 ''m5'')]"

text \<open>Chat 7 after two answered messages and one unanswered one: five stored turns.\<close>

definition five_turns :: "((request \<Rightarrow> exception + pyval) \<times> event) list" where
  "five_turns =
     [(answering ''ok'', TextMsg 7 ''m1''), (answering ''ok'', TextMsg 7 ''m2''),
      (failing, TextMsg 7 ''m3'')]"

text \<open>
  Chat 7 after the five answered messages and two more whose completion calls fail:
  twelve stored turns.
\<close>

definition twelve_turns :: "((request \<Rightarrow> exception + pyval) \<times> event) list" where
  "twelve_turns = five_exchanges @ [(failing, TextMsg 7 ''m6''), (failing, TextMsg 7 ''m7'')]"

text \<open>
  Two runs that leave chat 7 with the same stored history: one in which chat 8 has
  talked to the bot as well, one in which it has not.
\<close>

definition two_chats :: "((request \<Rightarrow> exception + pyval) \<times> event) list" where
  "two_chats = [(answering ''ok'', TextMsg 7 ''m1''), (answering ''yes'', TextMsg 8 ''x1'')]"

definition one_chat :: "((request \<Rightarrow> exception + pyval) \<times> event) list" where
  "one_chat = [(answering ''ok'', TextMsg 7 ''m1'')]"

section \<open>Basic facts\<close>

lemma slice_from_last_ten: "slice_from (- 10) xs = drop (length xs - 10) xs"
proof -
  have "nat (max (int (length xs) + - 10) 0) = length xs - 10" by arith
  then show ?thesis by (simp add: slice_from_def Let_def)
qed

lemma append_user_turn_local:
  "heap (snd (append_user_turn a t s)) (fst (append_user_turn a t s)) =
     drop (Suc (length (heap s a)) - 10) (heap s a) @ [\<lparr>role = ''user'', content = PyStr t\<rparr>]"
  by (simp add: append_user_turn_def list_append_def new_list_def slice_from_last_ten Let_def
      MAX_CONTEXT_MESSAGES_def)

lemma append_user_turn_stored:
  "a < next_addr s \<Longrightarrow>
   heap (snd (append_user_turn a t s)) a = heap s a @ [\<lparr>role = ''user'', content = PyStr t\<rparr>]"
  by (simp add: append_user_turn_def list_append_def new_list_def Let_def)

lemma append_user_turn_frame:
  "b \<noteq> a \<Longrightarrow> b < next_addr s \<Longrightarrow> heap (snd (append_user_turn a t s)) b = heap s b"
  by (simp add: append_user_turn_def list_append_def new_list_def Let_def)

lemma append_user_turn_dict:
  "user_conversations (snd (append_user_turn a t s)) = user_conversations s"
  by (simp add: append_user_turn_def list_append_def new_list_def Let_def)

lemma append_user_turn_next:
  "next_addr s \<le> next_addr (snd (append_user_turn a t s))"
  by (simp add: append_user_turn_def list_append_def new_list_def Let_def)

lemma append_user_turn_fst:
  "a < next_addr s \<Longrightarrow> fst (append_user_turn a t s) < next_addr (snd (append_user_turn a t s))"
  by (simp add: append_user_turn_def list_append_def new_list_def Let_def)

lemma commit_assistant_turn_stored:
  "stored_history (commit_assistant_turn c a r s) c =
     Some (drop (Suc (length (heap s a)) - 10) (heap s a) @ [\<lparr>role = ''assistant'', content = r\<rparr>])"
  by (simp add: commit_assistant_turn_def list_append_def new_list_def dict_setitem_def
      stored_history_def slice_from_last_ten Let_def MAX_CONTEXT_MESSAGES_def)

lemma commit_assistant_turn_frame:
  "b \<noteq> c \<Longrightarrow> user_conversations s b \<noteq> Some a \<Longrightarrow>
   (\<forall>x. user_conversations s b = Some x \<longrightarrow> x < next_addr s) \<Longrightarrow>
   stored_history (commit_assistant_turn c a r s) b = stored_history s b"
  by (auto simp add: commit_assistant_turn_def list_append_def new_list_def dict_setitem_def
      stored_history_def Let_def split: option.splits)

lemma well_formed_lt:
  "well_formed s \<Longrightarrow> user_conversations s c = Some a \<Longrightarrow> a < next_addr s"
  by (simp add: well_formed_def)

lemma well_formed_inj:
  "well_formed s \<Longrightarrow> user_conversations s c = Some a \<Longrightarrow> user_conversations s c' = Some a
     \<Longrightarrow> c = c'"
  unfolding well_formed_def by blast

lemma well_formed_initial: "well_formed initial_state"
  by (simp add: well_formed_def initial_state_def)

lemma well_formed_init_conversation: "well_formed s \<Longrightarrow> well_formed (init_conversation c s)"
  by (fastforce simp add: well_formed_def init_conversation_def new_list_def dict_setitem_def
      split: if_splits)

lemma init_conversation_present: "user_conversations (init_conversation c s) c \<noteq> None"
  by (simp add: init_conversation_def new_list_def dict_setitem_def)

lemma init_conversation_frame:
  "well_formed s \<Longrightarrow> b \<noteq> c \<Longrightarrow> stored_history (init_conversation c s) b = stored_history s b"
  by (auto simp add: well_formed_def init_conversation_def new_list_def dict_setitem_def
      stored_history_def split: option.splits)

lemma init_conversation_own:
  "stored_history (init_conversation c s) c =
     Some (case stored_history s c of None \<Rightarrow> [] | Some h \<Rightarrow> h)"
  by (auto simp add: init_conversation_def new_list_def dict_setitem_def
      stored_history_def split: option.splits)

lemma well_formed_new_command: "well_formed s \<Longrightarrow> well_formed (final (new_command c s))"
  by (fastforce simp add: well_formed_def new_command_def new_list_def dict_setitem_def
      split: if_splits)

lemma well_formed_append_user_turn:
  "well_formed s \<Longrightarrow> well_formed (snd (append_user_turn a t s))"
  by (fastforce simp add: well_formed_def append_user_turn_def list_append_def new_list_def Let_def)

lemma well_formed_commit_assistant_turn:
  "well_formed s \<Longrightarrow> well_formed (commit_assistant_turn c a r s)"
  by (fastforce simp add: well_formed_def commit_assistant_turn_def list_append_def new_list_def
      dict_setitem_def Let_def split: if_splits)

lemma well_formed_handle_message:
  "well_formed s \<Longrightarrow> well_formed (final (handle_message create c t s))"
  by (auto simp add: handle_message_def Let_def split_beta well_formed_init_conversation
      well_formed_append_user_turn well_formed_commit_assistant_turn
      split: option.splits sum.splits)

lemma well_formed_dispatch: "well_formed s \<Longrightarrow> well_formed (final (dispatch create ev s))"
  by (cases ev)
     (simp_all add: start_command_def help_command_def well_formed_init_conversation
       well_formed_new_command well_formed_handle_message)

lemma well_formed_run: "well_formed s \<Longrightarrow> well_formed (run evs s)"
  by (induction evs arbitrary: s) (auto simp add: well_formed_dispatch)

lemma well_formed_reachable: "well_formed (run evs initial_state)"
  by (simp add: well_formed_run well_formed_initial)

lemma append_user_turn_fst_cases:
  "fst (append_user_turn a t s) = a \<or> fst (append_user_turn a t s) = next_addr s"
  by (simp add: append_user_turn_def list_append_def new_list_def Let_def)

lemma init_conversation_lookup:
  obtains a where "user_conversations (init_conversation c s) c = Some a"
    and "heap (init_conversation c s) a = conversation_of s c"
proof -
  obtain a where a: "user_conversations (init_conversation c s) c = Some a"
    using init_conversation_present [of c s] by auto
  have "stored_history (init_conversation c s) c = Some (conversation_of s c)"
    by (simp add: init_conversation_own conversation_of_def)
  with a have "heap (init_conversation c s) a = conversation_of s c"
    by (simp add: stored_history_def)
  with a show thesis by (rule that)
qed

lemma handle_message_effects:
  "effects (handle_message create c t s) =
     [ChatCompletionCreate
        (completion_request
          (drop (Suc (length (conversation_of s c)) - 10) (conversation_of s c)
           @ [\<lparr>role = ''user'', content = PyStr t\<rparr>])),
      ReplyText c
        (case chat_completion create
           (completion_request
             (drop (Suc (length (conversation_of s c)) - 10) (conversation_of s c)
              @ [\<lparr>role = ''user'', content = PyStr t\<rparr>])) of
           Inl e \<Rightarrow> PyStr apology_text | Inr v \<Rightarrow> v)]"
proof -
  obtain a where a: "user_conversations (init_conversation c s) c = Some a"
    and h: "heap (init_conversation c s) a = conversation_of s c"
    by (rule init_conversation_lookup)
  show ?thesis
    using append_user_turn_local [of a t "init_conversation c s"]
    by (simp add: handle_message_def a h Let_def split_beta split: sum.splits)
qed

lemma handle_message_raised: "raised (handle_message create c t s) = None"
proof -
  obtain a where a: "user_conversations (init_conversation c s) c = Some a"
    and h: "heap (init_conversation c s) a = conversation_of s c"
    by (rule init_conversation_lookup)
  show ?thesis
    by (simp add: handle_message_def a Let_def split_beta split: sum.splits)
qed

lemma handle_message_success:
  assumes "chat_completion create
             (completion_request
               (drop (Suc (length (conversation_of s c)) - 10) (conversation_of s c)
                @ [\<lparr>role = ''user'', content = PyStr t\<rparr>])) = Inr r"
  shows "stored_history (final (handle_message create c t s)) c =
     Some (drop (Suc (length (drop (Suc (length (conversation_of s c)) - 10) (conversation_of s c)
                  @ [\<lparr>role = ''user'', content = PyStr t\<rparr>])) - 10)
             (drop (Suc (length (conversation_of s c)) - 10) (conversation_of s c)
                  @ [\<lparr>role = ''user'', content = PyStr t\<rparr>])
           @ [\<lparr>role = ''assistant'', content = r\<rparr>])"
proof -
  obtain a where a: "user_conversations (init_conversation c s) c = Some a"
    and h: "heap (init_conversation c s) a = conversation_of s c"
    by (rule init_conversation_lookup)
  show ?thesis
    using append_user_turn_local [of a t "init_conversation c s"] assms
    by (simp add: handle_message_def a h Let_def split_beta commit_assistant_turn_stored)
qed

lemma handle_message_failure:
  assumes "well_formed s"
    and "chat_completion create
             (completion_request
               (drop (Suc (length (conversation_of s c)) - 10) (conversation_of s c)
                @ [\<lparr>role = ''user'', content = PyStr t\<rparr>])) = Inl e"
  shows "stored_history (final (handle_message create c t s)) c =
     Some (conversation_of s c @ [\<lparr>role = ''user'', content = PyStr t\<rparr>])"
proof -
  obtain a where a: "user_conversations (init_conversation c s) c = Some a"
    and h: "heap (init_conversation c s) a = conversation_of s c"
    by (rule init_conversation_lookup)
  have "well_formed (init_conversation c s)"
    using assms(1) by (rule well_formed_init_conversation)
  with a have lt: "a < next_addr (init_conversation c s)"
    by (simp add: well_formed_def)
  show ?thesis
    using append_user_turn_local [of a t "init_conversation c s"] assms(2)
      append_user_turn_stored [OF lt, of t]
    by (simp add: handle_message_def a h Let_def split_beta stored_history_def
        append_user_turn_dict)
qed

lemma handle_message_frame:
  assumes "well_formed s" and "b \<noteq> c"
  shows "stored_history (final (handle_message create c t s)) b = stored_history s b"
proof -
  let ?s1 = "init_conversation c s"
  let ?r = "append_user_turn (the (user_conversations ?s1 c)) t ?s1"
  obtain a where a: "user_conversations ?s1 c = Some a"
    and h: "heap ?s1 a = conversation_of s c"
    by (rule init_conversation_lookup)
  have wf1: "well_formed ?s1"
    using assms(1) by (rule well_formed_init_conversation)
  have s1: "stored_history ?s1 b = stored_history s b"
    using assms by (rule init_conversation_frame)
  have s2: "stored_history (snd (append_user_turn a t ?s1)) b = stored_history ?s1 b"
  proof (cases "user_conversations ?s1 b")
    case None
    then show ?thesis by (simp add: stored_history_def append_user_turn_dict)
  next
    case (Some x)
    with wf1 a assms(2) have "x \<noteq> a" "x < next_addr ?s1"
      by (auto simp add: well_formed_def)
    then show ?thesis
      using Some by (simp add: stored_history_def append_user_turn_dict append_user_turn_frame)
  qed
  have s3: "stored_history
              (commit_assistant_turn c (fst (append_user_turn a t ?s1)) r
                 (snd (append_user_turn a t ?s1))) b =
            stored_history (snd (append_user_turn a t ?s1)) b" for r
  proof (rule commit_assistant_turn_frame [OF assms(2)])
    show "user_conversations (snd (append_user_turn a t ?s1)) b
            \<noteq> Some (fst (append_user_turn a t ?s1))"
    proof
      assume "user_conversations (snd (append_user_turn a t ?s1)) b
                = Some (fst (append_user_turn a t ?s1))"
      then have ub: "user_conversations ?s1 b = Some (fst (append_user_turn a t ?s1))"
        by (simp add: append_user_turn_dict)
      have "fst (append_user_turn a t ?s1) < next_addr ?s1"
        using wf1 ub by (rule well_formed_lt)
      moreover have "fst (append_user_turn a t ?s1) \<noteq> a"
      proof
        assume "fst (append_user_turn a t ?s1) = a"
        with ub have "user_conversations ?s1 b = Some a" by simp
        from well_formed_inj [OF wf1 this a] assms(2) show False by simp
      qed
      ultimately show False
        using append_user_turn_fst_cases [of a t ?s1] by simp
    qed
    show "\<forall>x. user_conversations (snd (append_user_turn a t ?s1)) b = Some x \<longrightarrow>
            x < next_addr (snd (append_user_turn a t ?s1))"
      using wf1 append_user_turn_next [of ?s1 a t]
      by (fastforce simp add: well_formed_def append_user_turn_dict)
  qed
  show ?thesis
    by (simp add: handle_message_def a Let_def split_beta s1 s2 s3 split: sum.splits)
qed

subsection \<open>The example runs evaluated\<close>

lemmas run_defs =
  initial_state_def handle_message_def init_conversation_def new_list_def
  dict_setitem_def append_user_turn_def list_append_def MAX_CONTEXT_MESSAGES_def slice_from_def
  chat_completion_def answering_def failing_def commit_assistant_turn_def stored_history_def
  completion_request_def messages_for_openai_def start_command_def help_command_def
  new_command_def Let_def

lemma five_exchanges_history:
  "stored_history (run five_exchanges initial_state) 7 =
     Some [\<lparr>role = ''user'', content = PyStr ''m1''\<rparr>, \<lparr>role = ''assistant'', content = PyStr ''ok''\<rparr>,
           \<lparr>role = ''user'', content = PyStr ''m2''\<rparr>, \<lparr>role = ''assistant'', content = PyStr ''ok''\<rparr>,
           \<lparr>role = ''user'', content = PyStr ''m3''\<rparr>, \<lparr>role = ''assistant'', content = PyStr ''ok''\<rparr>,
           \<lparr>role = ''user'', content = PyStr ''m4''\<rparr>, \<lparr>role = ''assistant'', content = PyStr ''ok''\<rparr>,
           \<lparr>role = ''user'', content = PyStr ''m5''\<rparr>, \<lparr>role = ''assistant'', content = PyStr ''ok''\<rparr>]"
  by (simp add: five_exchanges_def run_defs)

lemma chat_completion_answering: "chat_completion (answering txt) req = Inr (PyStr txt)"
  by (simp add: chat_completion_def answering_def)

lemma chat_completion_failing: "chat_completion failing req = Inl (OpenAIError ''timeout'')"
  by (simp add: chat_completion_def failing_def)

section \<open>The claims\<close>

subsection \<open>C4: appending a turn and bounding the history\<close>

text \<open>
  Claim C4. Appending a turn and bounding gives the history with the turn appended and
  then cut from the front to at most \<open>MAX_CONTEXT_MESSAGES\<close> entries: only the oldest
  entries go, the others keep their order, the new turn is last. This is what the variable
  \<open>conversation_history\<close> holds after lines 116 to 120 (the user's turn), and what the
  dictionary holds after lines 151 to 154 (the assistant's turn), for every list and every
  turn. Neither step has a failing branch.
\<close>

theorem append_and_bound_fifo:
  "heap (snd (append_user_turn a t s)) (fst (append_user_turn a t s)) =
     drop (Suc (length (heap s a)) - nat MAX_CONTEXT_MESSAGES) (heap s a)
       @ [\<lparr>role = ''user'', content = PyStr t\<rparr>]
   \<and> int (length (heap (snd (append_user_turn a t s)) (fst (append_user_turn a t s))))
       \<le> MAX_CONTEXT_MESSAGES
   \<and> stored_history (commit_assistant_turn c a r s) c =
       Some (drop (Suc (length (heap s a)) - nat MAX_CONTEXT_MESSAGES) (heap s a)
              @ [\<lparr>role = ''assistant'', content = r\<rparr>])
   \<and> int (length (drop (Suc (length (heap s a)) - nat MAX_CONTEXT_MESSAGES) (heap s a)
              @ [\<lparr>role = ''assistant'', content = r\<rparr>])) \<le> MAX_CONTEXT_MESSAGES"
proof -
  have ten: "nat MAX_CONTEXT_MESSAGES = 10"
    by (simp add: MAX_CONTEXT_MESSAGES_def)
  have "int (length (drop (Suc (length xs) - 10) xs @ [m])) \<le> MAX_CONTEXT_MESSAGES"
    for xs :: "message list" and m
    by (simp add: MAX_CONTEXT_MESSAGES_def)
  then show ?thesis
    by (simp add: ten append_user_turn_local commit_assistant_turn_stored)
qed

subsection \<open>C1: the stored history after a failed completion\<close>

text \<open>
  Claim C1 (the code departs from it). After a failed completion call the stored history
  should be the earlier one plus the user's turn, cut to \<open>MAX_CONTEXT_MESSAGES\<close>. The
  slice of line 120 is bound to the local variable only and the \<^verbatim>\<open>except\<close> branch
  returns without storing it, so the dictionary keeps the list that line 116 extended in
  place. With ten stored turns and a failing call, the stored history afterwards is the ten
  turns plus the user's turn: eleven entries, none removed.
\<close>

theorem failed_completion_stores_eleven:
  "map_option length (stored_history (run five_exchanges initial_state) 7) = Some 10
   \<and> stored_history (final (handle_message failing 7 ''m6'' (run five_exchanges initial_state))) 7
       = map_option (\<lambda>h. h @ [\<lparr>role = ''user'', content = PyStr ''m6''\<rparr>])
           (stored_history (run five_exchanges initial_state) 7)
   \<and> map_option length
        (stored_history (final (handle_message failing 7 ''m6'' (run five_exchanges initial_state))) 7)
       = Some 11"
proof -
  have "well_formed (run five_exchanges initial_state)"
    by (rule well_formed_reachable)
  then have "stored_history (final (handle_message failing 7 ''m6'' (run five_exchanges initial_state))) 7
      = Some (conversation_of (run five_exchanges initial_state) 7
               @ [\<lparr>role = ''user'', content = PyStr ''m6''\<rparr>])"
    by (rule handle_message_failure) (rule chat_completion_failing)
  then show ?thesis
    by (simp add: conversation_of_def five_exchanges_history)
qed

subsection \<open>C2: the bound on the stored history\<close>

text \<open>
  Claim C2 (the code departs from it). The stored history should never be longer than
  \<open>MAX_CONTEXT_MESSAGES\<close> after a handler run. Starting from the freshly loaded module,
  eleven text messages of one chat whose completion calls all fail leave eleven stored
  turns.
\<close>

theorem eleven_failures_store_eleven:
  "map_option length
     (stored_history (run (replicate 11 (failing, TextMsg 7 ''hello'')) initial_state) 7) = Some 11"
  by (simp add: numeral_eq_Suc run_defs)

subsection \<open>C5: one reply for every text message\<close>






subsection \<open>C7: the request and the reply taken from the response\<close>

text \<open>
  Claim C7. The request of every completion call carries the system message first and
  then the current history in order, the model \<^verbatim>\<open>gpt-3.5-turbo\<close> and the temperature
  0.7; when the response has a first choice with a message with a content, that content
  is the reply.
\<close>

theorem completion_request_payload:
  "let history = drop (Suc (length (conversation_of s c)) - nat MAX_CONTEXT_MESSAGES)
                   (conversation_of s c) @ [\<lparr>role = ''user'', content = PyStr t\<rparr>];
       req = \<lparr>model = ''gpt-3.5-turbo'',
              messages = \<lparr>role = ''system'', content = PyStr system_prompt\<rparr> # history,
              temperature = 0.7\<rparr>
   in (\<exists>reply. effects (handle_message create c t s) =
         [ChatCompletionCreate req, ReplyText c reply])
    \<and> (\<forall>response choice choices msg body.
          create req = Inr (PyDict response) \<and>
          map_of response ''choices'' = Some (PyList (PyDict choice # choices)) \<and>
          map_of choice ''message'' = Some (PyDict msg) \<and>
          map_of msg ''content'' = Some body
          \<longrightarrow> effects (handle_message create c t s) =
                [ChatCompletionCreate req, ReplyText c body])"
proof -
  have ten: "nat MAX_CONTEXT_MESSAGES = 10"
    by (simp add: MAX_CONTEXT_MESSAGES_def)
  have success: "chat_completion create req = Inr body"
    if "create req = Inr (PyDict response)"
      and "map_of response ''choices'' = Some (PyList (PyDict choice # choices))"
      and "map_of choice ''message'' = Some (PyDict msg)"
      and "map_of msg ''content'' = Some body"
    for req response choice choices msg body
    using that by (simp add: chat_completion_def)
  show ?thesis
    unfolding Let_def ten
    using handle_message_effects [of create c t s]
    by (auto simp add: completion_request_def messages_for_openai_def dest!: success)
qed

text \<open>The first message of a new chat, answered with \<^verbatim>\<open>ok\<close>.\<close>

theorem completion_request_payload_witness:
  "answering ''ok''
     \<lparr>model = ''gpt-3.5-turbo'',
      messages = [\<lparr>role = ''system'', content = PyStr system_prompt\<rparr>,
                  \<lparr>role = ''user'', content = PyStr ''hi''\<rparr>],
      temperature = 0.7\<rparr>
     = Inr (PyDict [(''choices'',
              PyList [PyDict [(''message'',
                PyDict [(''role'', PyStr ''assistant''), (''content'', PyStr ''ok'')])]])])
   \<and> effects (handle_message (answering ''ok'') 7 ''hi'' initial_state) =
       [ChatCompletionCreate
          \<lparr>model = ''gpt-3.5-turbo'',
           messages = [\<lparr>role = ''system'', content = PyStr system_prompt\<rparr>,
                       \<lparr>role = ''user'', content = PyStr ''hi''\<rparr>],
           temperature = 0.7\<rparr>,
        ReplyText 7 (PyStr ''ok'')]"
  using completion_request_payload [of initial_state 7 "''hi''" "answering ''ok''"]
  by (simp add: Let_def conversation_of_def stored_history_def initial_state_def
      MAX_CONTEXT_MESSAGES_def answering_def)

subsection \<open>C8: the reset command\<close>

text \<open>
  Claim C8. \<^verbatim>\<open>new_command\<close> leaves an empty stored history for the chat, whether or not
  there was an entry, and sends the fixed confirmation; a second reset gives the same, and
  the lookup-or-create step after a reset finds the empty history.
\<close>

theorem reset_empties_history:
  "stored_history (final (new_command c s)) c = Some []
   \<and> effects (new_command c s) = [ReplyText c (PyStr reset_text)]
   \<and> raised (new_command c s) = None
   \<and> stored_history (final (new_command c (final (new_command c s)))) c = Some []
   \<and> effects (new_command c (final (new_command c s))) = [ReplyText c (PyStr reset_text)]
   \<and> stored_history (init_conversation c (final (new_command c s))) c = Some []
   \<and> reset_text = ''Conversation context has been reset. Feel free to start anew!''"
  by (simp add: new_command_def new_list_def dict_setitem_def stored_history_def
      init_conversation_def reset_text_def)

text \<open>A chat with five stored turns has none after the reset.\<close>

theorem reset_empties_history_witness:
  "map_option length (stored_history (run five_turns initial_state) 7) = Some 5
   \<and> map_option length (stored_history (final (new_command 7 (run five_turns initial_state))) 7)
       = Some 0
   \<and> effects (new_command 7 (run five_turns initial_state)) = [ReplyText 7 (PyStr reset_text)]"
proof -
  have "map_option length (stored_history (run five_turns initial_state) 7) = Some 5"
    by (simp add: five_turns_def run_defs)
  then show ?thesis
    using reset_empties_history [of 7 "run five_turns initial_state"] by simp
qed

subsection \<open>C6: the system message is never stored\<close>

lemma dialogue_roles_initial: "dialogue_roles_only initial_state"
  by (simp add: dialogue_roles_only_def initial_state_def)

lemma dialogue_roles_new_list:
  "dialogue_roles_only s \<Longrightarrow> \<forall>m \<in> set xs. role m = ''user'' \<or> role m = ''assistant''
     \<Longrightarrow> dialogue_roles_only (snd (new_list xs s))"
  by (simp add: dialogue_roles_only_def new_list_def)

lemma dialogue_roles_list_append:
  "dialogue_roles_only s \<Longrightarrow> role m = ''user'' \<or> role m = ''assistant''
     \<Longrightarrow> dialogue_roles_only (list_append a m s)"
  by (auto simp add: dialogue_roles_only_def list_append_def)

lemma dialogue_roles_dict_setitem:
  "dialogue_roles_only (dict_setitem c a s) = dialogue_roles_only s"
  by (simp add: dialogue_roles_only_def dict_setitem_def)

lemma dialogue_roles_slice:
  "dialogue_roles_only s \<Longrightarrow>
     \<forall>m \<in> set (slice_from i (heap s a)). role m = ''user'' \<or> role m = ''assistant''"
  by (auto simp add: dialogue_roles_only_def slice_from_def Let_def dest: in_set_dropD)

lemma dialogue_roles_init_conversation:
  "dialogue_roles_only s \<Longrightarrow> dialogue_roles_only (init_conversation c s)"
  using dialogue_roles_new_list [of s "[]"]
  by (simp add: init_conversation_def split_beta dialogue_roles_dict_setitem)

lemma dialogue_roles_append_user_turn:
  assumes "dialogue_roles_only s"
  shows "dialogue_roles_only (snd (append_user_turn a t s))"
proof -
  let ?s1 = "list_append a \<lparr>role = ''user'', content = PyStr t\<rparr> s"
  have s1: "dialogue_roles_only ?s1"
    using assms by (simp add: dialogue_roles_list_append)
  then have "dialogue_roles_only (snd (new_list (slice_from i (heap ?s1 a)) ?s1))" for i
    by (simp add: dialogue_roles_new_list dialogue_roles_slice)
  with s1 show ?thesis
    by (simp add: append_user_turn_def Let_def)
qed

lemma dialogue_roles_commit_assistant_turn:
  assumes "dialogue_roles_only s"
  shows "dialogue_roles_only (commit_assistant_turn c a r s)"
proof -
  let ?s1 = "list_append a \<lparr>role = ''assistant'', content = r\<rparr> s"
  have "dialogue_roles_only ?s1"
    using assms by (simp add: dialogue_roles_list_append)
  then have "dialogue_roles_only (snd (new_list (slice_from i (heap ?s1 a)) ?s1))" for i
    by (simp add: dialogue_roles_new_list dialogue_roles_slice)
  then show ?thesis
    by (simp add: commit_assistant_turn_def Let_def split_beta dialogue_roles_dict_setitem)
qed

lemma dialogue_roles_dispatch:
  "dialogue_roles_only s \<Longrightarrow> dialogue_roles_only (final (dispatch create ev s))"
proof (cases ev)
  case (NewCmd c)
  assume "dialogue_roles_only s"
  then show ?thesis
    using NewCmd dialogue_roles_new_list [of s "[]"]
    by (simp add: new_command_def split_beta dialogue_roles_dict_setitem)
next
  case (TextMsg c t)
  assume "dialogue_roles_only s"
  then show ?thesis
    using TextMsg
    by (simp add: handle_message_def Let_def split_beta dialogue_roles_init_conversation
        dialogue_roles_append_user_turn dialogue_roles_commit_assistant_turn
        split: option.splits sum.splits)
qed (simp_all add: start_command_def help_command_def dialogue_roles_init_conversation)

lemma dialogue_roles_run: "dialogue_roles_only s \<Longrightarrow> dialogue_roles_only (run evs s)"
  by (induction evs arbitrary: s) (auto simp add: dialogue_roles_dispatch)

text \<open>
  Claim C6. After any sequence of handler runs from the freshly loaded module, every
  message of every stored history has the role \<^verbatim>\<open>user\<close> or \<^verbatim>\<open>assistant\<close>, and so is
  not the system message, which is only put in front of the request (see C7).
\<close>

theorem persona_never_stored:
  assumes "stored_history (run evs initial_state) c = Some h" and "m \<in> set h"
  shows "(role m = ''user'' \<or> role m = ''assistant'')
         \<and> m \<noteq> \<lparr>role = ''system'', content = PyStr system_prompt\<rparr>"
proof -
  have "dialogue_roles_only (run evs initial_state)"
    by (simp add: dialogue_roles_run dialogue_roles_initial)
  moreover from assms(1) obtain a where "heap (run evs initial_state) a = h"
    by (auto simp add: stored_history_def split: option.splits)
  ultimately have "role m = ''user'' \<or> role m = ''assistant''"
    using assms(2) by (auto simp add: dialogue_roles_only_def)
  then show ?thesis by auto
qed

text \<open>A start command and one answered message.\<close>

theorem persona_never_stored_witness:
  "stored_history (run [(answering ''ok'', StartCmd 7), (answering ''ok'', TextMsg 7 ''hi'')] initial_state) 7
     = Some [\<lparr>role = ''user'', content = PyStr ''hi''\<rparr>, \<lparr>role = ''assistant'', content = PyStr ''ok''\<rparr>]
   \<and> \<lparr>role = ''assistant'', content = PyStr ''ok''\<rparr>
       \<in> set [\<lparr>role = ''user'', content = PyStr ''hi''\<rparr>, \<lparr>role = ''assistant'', content = PyStr ''ok''\<rparr>]
   \<and> role \<lparr>role = ''assistant'', content = PyStr ''ok''\<rparr> = ''assistant''
   \<and> \<lparr>role = ''assistant'', content = PyStr ''ok''\<rparr> \<noteq> \<lparr>role = ''system'', content = PyStr system_prompt\<rparr>"
proof -
  have h: "stored_history (run [(answering ''ok'', StartCmd 7), (answering ''ok'', TextMsg 7 ''hi'')] initial_state) 7
     = Some [\<lparr>role = ''user'', content = PyStr ''hi''\<rparr>, \<lparr>role = ''assistant'', content = PyStr ''ok''\<rparr>]"
    by (simp add: run_defs)
  have m: "\<lparr>role = ''assistant'', content = PyStr ''ok''\<rparr>
       \<in> set [\<lparr>role = ''user'', content = PyStr ''hi''\<rparr>, \<lparr>role = ''assistant'', content = PyStr ''ok''\<rparr>]"
    by simp
  from persona_never_stored [OF h m] h m show ?thesis by simp
qed

subsection \<open>C10: the truncation does not depend on the stored length\<close>

text \<open>
  Claim C10. Whatever the length of the stored history, also beyond
  \<open>MAX_CONTEXT_MESSAGES\<close>, the next text-message run cuts it: the history sent to the
  service (the request's messages without the system message) has at most
  \<open>MAX_CONTEXT_MESSAGES\<close> entries, and when the \<^verbatim>\<open>try\<close> block succeeds the history
  stored afterwards has at most \<open>MAX_CONTEXT_MESSAGES\<close> entries. Nothing is assumed
  about the state.
\<close>

theorem truncation_self_healing:
  "\<exists>req reply.
     effects (handle_message create c t s) = [ChatCompletionCreate req, ReplyText c reply]
     \<and> int (length (messages req)) \<le> 1 + MAX_CONTEXT_MESSAGES
     \<and> ((\<exists>e. chat_completion create req = Inl e)
        \<or> (\<exists>h. stored_history (final (handle_message create c t s)) c = Some h
               \<and> int (length h) \<le> MAX_CONTEXT_MESSAGES))"
proof -
  let ?h = "drop (Suc (length (conversation_of s c)) - 10) (conversation_of s c)
              @ [\<lparr>role = ''user'', content = PyStr t\<rparr>]"
  let ?req = "completion_request ?h"
  have len: "int (length (messages ?req)) \<le> 1 + MAX_CONTEXT_MESSAGES"
    by (simp add: completion_request_def messages_for_openai_def MAX_CONTEXT_MESSAGES_def)
  have stored: "(\<exists>e. chat_completion create ?req = Inl e)
        \<or> (\<exists>h. stored_history (final (handle_message create c t s)) c = Some h
               \<and> int (length h) \<le> MAX_CONTEXT_MESSAGES)"
  proof (cases "chat_completion create ?req")
    case (Inl e)
    then show ?thesis by blast
  next
    case (Inr r)
    then show ?thesis
      by (simp add: handle_message_success MAX_CONTEXT_MESSAGES_def)
  qed
  from handle_message_effects [of create c t s] len stored show ?thesis
    by blast
qed

text \<open>Twelve stored turns, then an answered message.\<close>

theorem truncation_self_healing_witness:
  "map_option length (stored_history (run twelve_turns initial_state) 7) = Some 12
   \<and> (\<exists>h. stored_history
             (final (handle_message (answering ''ok'') 7 ''m8'' (run twelve_turns initial_state))) 7
             = Some h
          \<and> int (length h) \<le> MAX_CONTEXT_MESSAGES)"
proof -
  have "map_option length (stored_history (run twelve_turns initial_state) 7) = Some 12"
    by (simp add: twelve_turns_def five_exchanges_def run_defs)
  then show ?thesis
    using truncation_self_healing [of "answering ''ok''" 7 "''m8''" "run twelve_turns initial_state"]
    by (auto simp add: chat_completion_answering)
qed

subsection \<open>C3: the eleventh message\<close>

text \<open>
  Claim C3, as amended. With exactly ten stored turns and an answered eleventh message,
  the stored history afterwards has ten entries: the original ones without the oldest two,
  then the user's turn and the assistant's turn. Its first element is therefore the
  original entry at index 2, the third-oldest one.
\<close>

theorem eleventh_message_drops_two:
  assumes "stored_history s c = Some h" and "length h = 10"
    and "chat_completion create
           (completion_request (tl h @ [\<lparr>role = ''user'', content = PyStr t\<rparr>])) = Inr r"
  shows "stored_history (final (handle_message create c t s)) c =
           Some (drop 2 h @ [\<lparr>role = ''user'', content = PyStr t\<rparr>,
                             \<lparr>role = ''assistant'', content = r\<rparr>])
         \<and> length (drop 2 h @ [\<lparr>role = ''user'', content = PyStr t\<rparr>,
                             \<lparr>role = ''assistant'', content = r\<rparr>]) = 10
         \<and> hd (drop 2 h @ [\<lparr>role = ''user'', content = PyStr t\<rparr>,
                             \<lparr>role = ''assistant'', content = r\<rparr>]) = h ! 2"
proof -
  have conv: "conversation_of s c = h"
    using assms(1) by (simp add: conversation_of_def)
  have tl: "drop (Suc 0) h = tl h"
    by (simp add: drop_Suc)
  have "stored_history (final (handle_message create c t s)) c =
           Some (drop 2 h @ [\<lparr>role = ''user'', content = PyStr t\<rparr>,
                             \<lparr>role = ''assistant'', content = r\<rparr>])"
    using handle_message_success [of create s c t r] assms(2,3)
    by (simp add: conv tl drop_Suc numeral_2_eq_2 drop_tl)
  moreover have "hd (drop 2 h @ [\<lparr>role = ''user'', content = PyStr t\<rparr>,
                             \<lparr>role = ''assistant'', content = r\<rparr>]) = h ! 2"
    using assms(2) by (simp add: hd_append hd_drop_conv_nth)
  ultimately show ?thesis
    using assms(2) by simp
qed

text \<open>The five answered messages, then a sixth.\<close>

theorem eleventh_message_drops_two_witness:
  "map_option length (stored_history (run five_exchanges initial_state) 7) = Some 10
   \<and> stored_history
       (final (handle_message (answering ''ok'') 7 ''m6'' (run five_exchanges initial_state))) 7 =
     Some [\<lparr>role = ''user'', content = PyStr ''m2''\<rparr>, \<lparr>role = ''assistant'', content = PyStr ''ok''\<rparr>,
           \<lparr>role = ''user'', content = PyStr ''m3''\<rparr>, \<lparr>role = ''assistant'', content = PyStr ''ok''\<rparr>,
           \<lparr>role = ''user'', content = PyStr ''m4''\<rparr>, \<lparr>role = ''assistant'', content = PyStr ''ok''\<rparr>,
           \<lparr>role = ''user'', content = PyStr ''m5''\<rparr>, \<lparr>role = ''assistant'', content = PyStr ''ok''\<rparr>,
           \<lparr>role = ''user'', content = PyStr ''m6''\<rparr>, \<lparr>role = ''assistant'', content = PyStr ''ok''\<rparr>]"
proof -
  have len: "length
     [\<lparr>role = ''user'', content = PyStr ''m1''\<rparr>, \<lparr>role = ''assistant'', content = PyStr ''ok''\<rparr>,
      \<lparr>role = ''user'', content = PyStr ''m2''\<rparr>, \<lparr>role = ''assistant'', content = PyStr ''ok''\<rparr>,
      \<lparr>role = ''user'', content = PyStr ''m3''\<rparr>, \<lparr>role = ''assistant'', content = PyStr ''ok''\<rparr>,
      \<lparr>role = ''user'', content = PyStr ''m4''\<rparr>, \<lparr>role = ''assistant'', content = PyStr ''ok''\<rparr>,
      \<lparr>role = ''user'', content = PyStr ''m5''\<rparr>, \<lparr>role = ''assistant'', content = PyStr ''ok''\<rparr>]
     = 10"
    by simp
  from eleventh_message_drops_two
    [where t = "''m6''" and create = "answering ''ok''" and r = "PyStr ''ok''",
      OF five_exchanges_history len chat_completion_answering]
  show ?thesis
    by (simp add: five_exchanges_history)
qed

text \<open>
  Claim C3 as stated has the second-oldest original entry first. After the five answered
  messages and a sixth, the second-oldest original entry is the first answer, and the
  first stored entry is the second question.
\<close>

theorem eleventh_message_first_not_second_oldest:
  "map_option length (stored_history (run five_exchanges initial_state) 7) = Some 10
   \<and> map_option hd (map_option tl (stored_history (run five_exchanges initial_state) 7))
       = Some \<lparr>role = ''assistant'', content = PyStr ''ok''\<rparr>
   \<and> map_option hd (stored_history
       (final (handle_message (answering ''ok'') 7 ''m6'' (run five_exchanges initial_state))) 7)
       = Some \<lparr>role = ''user'', content = PyStr ''m2''\<rparr>
   \<and> map_option hd (stored_history
       (final (handle_message (answering ''ok'') 7 ''m6'' (run five_exchanges initial_state))) 7)
       \<noteq> map_option hd (map_option tl (stored_history (run five_exchanges initial_state) 7))"
proof -
  have "conversation_of (run five_exchanges initial_state) 7 =
     [\<lparr>role = ''user'', content = PyStr ''m1''\<rparr>, \<lparr>role = ''assistant'', content = PyStr ''ok''\<rparr>,
      \<lparr>role = ''user'', content = PyStr ''m2''\<rparr>, \<lparr>role = ''assistant'', content = PyStr ''ok''\<rparr>,
      \<lparr>role = ''user'', content = PyStr ''m3''\<rparr>, \<lparr>role = ''assistant'', content = PyStr ''ok''\<rparr>,
      \<lparr>role = ''user'', content = PyStr ''m4''\<rparr>, \<lparr>role = ''assistant'', content = PyStr ''ok''\<rparr>,
      \<lparr>role = ''user'', content = PyStr ''m5''\<rparr>, \<lparr>role = ''assistant'', content = PyStr ''ok''\<rparr>]"
    by (simp add: conversation_of_def five_exchanges_history)
  then show ?thesis
    using handle_message_success [of "answering ''ok''" "run five_exchanges initial_state" 7
        "''m6''" "PyStr ''ok''", OF chat_completion_answering]
    by (simp add: five_exchanges_history)
qed

subsection \<open>C9: the chats are isolated from each other\<close>

lemma new_command_frame:
  "well_formed s \<Longrightarrow> b \<noteq> c \<Longrightarrow> stored_history (final (new_command c s)) b = stored_history s b"
  by (auto simp add: well_formed_def new_command_def new_list_def dict_setitem_def
      stored_history_def split: option.splits)

lemma dispatch_frame:
  assumes "well_formed s" and "chat_of ev \<noteq> b"
  shows "stored_history (final (dispatch create ev s)) b = stored_history s b"
proof (cases ev)
  case (StartCmd c)
  with assms show ?thesis by (simp add: start_command_def init_conversation_frame)
next
  case (HelpCmd c)
  then show ?thesis by (simp add: help_command_def)
next
  case (NewCmd c)
  with assms show ?thesis by (simp add: new_command_frame)
next
  case (TextMsg c t)
  with assms show ?thesis by (simp add: handle_message_frame)
qed

lemma handle_message_own:
  assumes "well_formed s" and "well_formed s'"
    and "stored_history s' c = stored_history s c"
  shows "effects (handle_message create c t s') = effects (handle_message create c t s)
       \<and> raised (handle_message create c t s') = raised (handle_message create c t s)
       \<and> stored_history (final (handle_message create c t s')) c =
          stored_history (final (handle_message create c t s)) c"
proof -
  let ?req = "completion_request
                (drop (Suc (length (conversation_of s c)) - 10) (conversation_of s c)
                 @ [\<lparr>role = ''user'', content = PyStr t\<rparr>])"
  have conv: "conversation_of s' c = conversation_of s c"
    using assms(3) by (simp add: conversation_of_def)
  have eff: "effects (handle_message create c t s') = effects (handle_message create c t s)"
    by (simp only: handle_message_effects conv)
  have "stored_history (final (handle_message create c t s')) c =
          stored_history (final (handle_message create c t s)) c"
  proof (cases "chat_completion create ?req")
    case (Inl e)
    from Inl have "chat_completion create
             (completion_request
               (drop (Suc (length (conversation_of s' c)) - 10) (conversation_of s' c)
                @ [\<lparr>role = ''user'', content = PyStr t\<rparr>])) = Inl e"
      by (simp only: conv)
    from handle_message_failure [OF assms(2) this] handle_message_failure [OF assms(1) Inl]
    show ?thesis by (simp only: conv)
  next
    case (Inr r)
    from Inr have "chat_completion create
             (completion_request
               (drop (Suc (length (conversation_of s' c)) - 10) (conversation_of s' c)
                @ [\<lparr>role = ''user'', content = PyStr t\<rparr>])) = Inr r"
      by (simp only: conv)
    from handle_message_success [OF this] handle_message_success [OF Inr]
    show ?thesis by (simp only: conv)
  qed
  with eff show ?thesis
    by (simp add: handle_message_raised)
qed

lemma dispatch_own:
  assumes "well_formed s" and "well_formed s'"
    and "stored_history s' (chat_of ev) = stored_history s (chat_of ev)"
  shows "effects (dispatch create ev s') = effects (dispatch create ev s)
       \<and> raised (dispatch create ev s') = raised (dispatch create ev s)
       \<and> stored_history (final (dispatch create ev s')) (chat_of ev) =
          stored_history (final (dispatch create ev s)) (chat_of ev)"
proof (cases ev)
  case (StartCmd c)
  with assms(3) show ?thesis
    by (simp add: start_command_def init_conversation_own)
next
  case (HelpCmd c)
  with assms(3) show ?thesis by (simp add: help_command_def)
next
  case (NewCmd c)
  then show ?thesis
    by (simp add: new_command_def new_list_def dict_setitem_def stored_history_def)
next
  case (TextMsg c t)
  with assms handle_message_own [of s s' c create t] show ?thesis by simp
qed

text \<open>
  Claim C9. After any sequence of handler runs from the freshly loaded module, a handler
  run for one chat (start, help, reset or text message) leaves the stored history of
  every other chat as it was. It does not read it either: in two reachable states that
  agree on the stored history of the handler's own chat, the run has the same effects, the
  same outcome and the same resulting history for that chat, whatever the other chats
  hold.
\<close>

theorem session_isolation:
  assumes "chat_of ev \<noteq> b"
  shows "stored_history (final (dispatch create ev (run evs initial_state))) b =
           stored_history (run evs initial_state) b
       \<and> (stored_history (run evs' initial_state) (chat_of ev) =
            stored_history (run evs initial_state) (chat_of ev)
          \<longrightarrow> effects (dispatch create ev (run evs' initial_state)) =
                effects (dispatch create ev (run evs initial_state))
              \<and> raised (dispatch create ev (run evs' initial_state)) =
                raised (dispatch create ev (run evs initial_state))
              \<and> stored_history (final (dispatch create ev (run evs' initial_state))) (chat_of ev) =
                stored_history (final (dispatch create ev (run evs initial_state))) (chat_of ev))"
  using assms dispatch_frame [OF well_formed_reachable]
    dispatch_own [OF well_formed_reachable well_formed_reachable]
  by blast

text \<open>A failing message of chat 7, with and without chat 8 in the dictionary.\<close>

theorem session_isolation_witness:
  "chat_of (TextMsg 7 ''m2'') \<noteq> 8
   \<and> stored_history (run one_chat initial_state) 7 = stored_history (run two_chats initial_state) 7
   \<and> stored_history (run two_chats initial_state) 8 =
       Some [\<lparr>role = ''user'', content = PyStr ''x1''\<rparr>, \<lparr>role = ''assistant'', content = PyStr ''yes''\<rparr>]
   \<and> stored_history (final (dispatch failing (TextMsg 7 ''m2'') (run two_chats initial_state))) 8 =
       Some [\<lparr>role = ''user'', content = PyStr ''x1''\<rparr>, \<lparr>role = ''assistant'', content = PyStr ''yes''\<rparr>]
   \<and> effects (dispatch failing (TextMsg 7 ''m2'') (run one_chat initial_state)) =
       effects (dispatch failing (TextMsg 7 ''m2'') (run two_chats initial_state))
   \<and> stored_history (final (dispatch failing (TextMsg 7 ''m2'') (run one_chat initial_state))) 7 =
       stored_history (final (dispatch failing (TextMsg 7 ''m2'') (run two_chats initial_state))) 7"
proof -
  have ne: "chat_of (TextMsg 7 ''m2'') \<noteq> 8"
    by simp
  have same: "stored_history (run one_chat initial_state) (chat_of (TextMsg 7 ''m2'')) =
      stored_history (run two_chats initial_state) (chat_of (TextMsg 7 ''m2''))"
    by (simp add: one_chat_def two_chats_def run_defs)
  have other: "stored_history (run two_chats initial_state) 8 =
       Some [\<lparr>role = ''user'', content = PyStr ''x1''\<rparr>, \<lparr>role = ''assistant'', content = PyStr ''yes''\<rparr>]"
    by (simp add: two_chats_def run_defs)
  from session_isolation [OF ne, of failing two_chats one_chat] same other ne
  show ?thesis by simp
qed

end
